theory Spec2Isabelle
  imports Main "HOL-Library.Word" "HOL-Library.Sublist"
begin

unbundle bit_operations_syntax

section \<open>Data model (miner.go, lines 18-42)\<close>

text \<open>
  Go's \<open>int\<close> and \<open>int64\<close> are 64-bit two's complement integers on the platforms the
  miner runs on: they are modelled as \<open>64 word\<close>, read as signed numbers with \<open>sint\<close>,
  so that \<open>nonce++\<close> and \<open>BlockNumber + 1\<close> wrap around as they do in Go.  A Go string is
  a sequence of bytes: a \<open>string\<close> (a \<open>char list\<close>) here.
\<close>

type_synonym go_int = "64 word"

record Transaction =
  ID :: string
  Data :: string

record Block =
  PrevHash :: string
  Transactions :: "Transaction list"
  Nonce :: go_int
  Hash :: string
  PrevCID :: string
  BlockNumber :: go_int
  Timestamp :: go_int
  Creator :: string
  Difficulty :: go_int

section \<open>SHA-256 (crypto/sha256.Sum256) and hexadecimal printing\<close>

text \<open>
  \<open>sha256.Sum256\<close> belongs to Go's standard library, not to the repository.  It is the
  SHA-256 function of FIPS 180-4, written out here so that every definition below computes.
  The round constants and the initial hash value are given as decimal numerals.
\<close>

definition sha256_K :: "32 word list" where
  "sha256_K =
   [1116352408, 1899447441, 3049323471, 3921009573, 961987163, 1508970993, 2453635748, 2870763221,
    3624381080, 310598401, 607225278, 1426881987, 1925078388, 2162078206, 2614888103, 3248222580,
    3835390401, 4022224774, 264347078, 604807628, 770255983, 1249150122, 1555081692, 1996064986,
    2554220882, 2821834349, 2952996808, 3210313671, 3336571891, 3584528711, 113926993, 338241895,
    666307205, 773529912, 1294757372, 1396182291, 1695183700, 1986661051, 2177026350, 2456956037,
    2730485921, 2820302411, 3259730800, 3345764771, 3516065817, 3600352804, 4094571909, 275423344,
    430227734, 506948616, 659060556, 883997877, 958139571, 1322822218, 1537002063, 1747873779,
    1955562222, 2024104815, 2227730452, 2361852424, 2428436474, 2756734187, 3204031479, 3329325298]"

definition sha256_init :: "32 word list" where
  "sha256_init =
   [1779033703, 3144134277, 1013904242, 2773480762, 1359893119, 2600822924, 528734635, 1541459225]"

definition be_bytes :: "nat \<Rightarrow> int \<Rightarrow> char list" where
  "be_bytes k n = map (\<lambda>i. char_of (drop_bit (8 * (k - 1 - i)) n)) [0..<k]"

definition sha256_pad :: "char list \<Rightarrow> char list" where
  "sha256_pad m =
     m @ [char_of (0x80 :: nat)] @
     replicate ((119 - length m mod 64) mod 64) (char_of (0 :: nat)) @
     be_bytes 8 (8 * int (length m))"

fun be_word :: "char list \<Rightarrow> 32 word" where
  "be_word bs = foldl (\<lambda>w c. push_bit 8 w OR of_char c) 0 bs"

fun words_of :: "nat \<Rightarrow> char list \<Rightarrow> 32 word list" where
  "words_of 0 bs = []"
| "words_of (Suc n) bs = be_word (take 4 bs) # words_of n (drop 4 bs)"

definition ssig0 :: "32 word \<Rightarrow> 32 word" where
  "ssig0 x = word_rotr 7 x XOR word_rotr 18 x XOR drop_bit 3 x"

definition ssig1 :: "32 word \<Rightarrow> 32 word" where
  "ssig1 x = word_rotr 17 x XOR word_rotr 19 x XOR drop_bit 10 x"

definition bsig0 :: "32 word \<Rightarrow> 32 word" where
  "bsig0 x = word_rotr 2 x XOR word_rotr 13 x XOR word_rotr 22 x"

definition bsig1 :: "32 word \<Rightarrow> 32 word" where
  "bsig1 x = word_rotr 6 x XOR word_rotr 11 x XOR word_rotr 25 x"

fun sha256_schedule :: "nat \<Rightarrow> 32 word list \<Rightarrow> 32 word list" where
  "sha256_schedule 0 ws = ws"
| "sha256_schedule (Suc n) ws =
     (let i = length ws
      in sha256_schedule n
           (ws @ [ssig1 (ws ! (i - 2)) + ws ! (i - 7) + ssig0 (ws ! (i - 15)) + ws ! (i - 16)]))"

definition sha256_round :: "32 word list \<Rightarrow> 32 word \<times> 32 word \<Rightarrow> 32 word list" where
  "sha256_round s kw =
     (let a = s ! 0; b = s ! 1; c = s ! 2; d = s ! 3; e = s ! 4; f = s ! 5; g = s ! 6; h = s ! 7;
          t1 = h + bsig1 e + ((e AND f) XOR (NOT e AND g)) + fst kw + snd kw;
          t2 = bsig0 a + ((a AND b) XOR (a AND c) XOR (b AND c))
      in [t1 + t2, a, b, c, d + t1, e, f, g])"

definition sha256_block :: "32 word list \<Rightarrow> char list \<Rightarrow> 32 word list" where
  "sha256_block s chunk =
     map2 (+) s (foldl sha256_round s (zip sha256_K (sha256_schedule 48 (words_of 16 chunk))))"

fun sha256_blocks :: "nat \<Rightarrow> 32 word list \<Rightarrow> char list \<Rightarrow> 32 word list" where
  "sha256_blocks 0 s bs = s"
| "sha256_blocks (Suc n) s bs = sha256_blocks n (sha256_block s (take 64 bs)) (drop 64 bs)"

definition sha256_Sum256 :: "char list \<Rightarrow> char list" where
  "sha256_Sum256 m =
     (let p = sha256_pad m
      in concat (map (\<lambda>w. be_bytes 4 (uint w)) (sha256_blocks (length p div 64) sha256_init p)))"

text \<open>\<open>fmt.Sprintf("%x", bytes)\<close>: two lower-case hexadecimal digits for every byte.\<close>

definition hex_digit :: "nat \<Rightarrow> char" where
  "hex_digit n = ''0123456789abcdef'' ! (n mod 16)"

definition sprintf_x :: "char list \<Rightarrow> string" where
  "sprintf_x bs = concat (map (\<lambda>c. [hex_digit (of_char c div 16), hex_digit (of_char c mod 16)]) bs)"

section \<open>Formatting with fmt.Sprintf\<close>

text \<open>\<open>%d\<close> prints a signed decimal numeral, with a leading \<open>-\<close> for a negative number.\<close>

definition dec_digit :: "nat \<Rightarrow> char" where
  "dec_digit n = char_of (48 + n)"

fun dec_nat :: "nat \<Rightarrow> string" where
  "dec_nat n = (if n < 10 then [dec_digit n] else dec_nat (n div 10) @ [dec_digit (n mod 10)])"

text \<open>Reading a decimal numeral back, to show that printing loses nothing.\<close>

definition dec_val :: "string \<Rightarrow> nat" where
  "dec_val ds = foldl (\<lambda>a c. 10 * a + (of_char c - 48)) 0 ds"

definition sprintf_d :: "go_int \<Rightarrow> string" where
  "sprintf_d w = (if sint w < 0 then CHR ''-'' # dec_nat (nat (- sint w)) else dec_nat (nat (sint w)))"

text \<open>
  \<open>%s\<close> applied to a \<open>[]Transaction\<close> prints the elements between square brackets,
  separated by one space; a struct is printed as its fields between braces, separated by
  one space; a string field is printed as it is.
\<close>

definition sprintf_s_Transaction :: "Transaction \<Rightarrow> string" where
  "sprintf_s_Transaction t = ''{'' @ ID t @ '' '' @ Data t @ ''}''"

fun join_space :: "string list \<Rightarrow> string" where
  "join_space [] = []"
| "join_space [x] = x"
| "join_space (x # y # ys) = x @ '' '' @ join_space (y # ys)"

definition sprintf_s_Transactions :: "Transaction list \<Rightarrow> string" where
  "sprintf_s_Transactions ts = ''['' @ join_space (map sprintf_s_Transaction ts) @ '']''"

section \<open>Proof of work (miner.go, lines 86-115)\<close>

datatype panic = NegativeRepeatCount | SliceBoundsOutOfRange

text \<open>
  \<open>blockData\<close> is the string that \<open>generateHash\<close> formats with \<open>"%s%d%d%s"\<close> and hashes.
  The assignment \<open>block.Nonce = nonce\<close> changes the function's own copy of the block, which
  the format does not read.
\<close>

definition blockData :: "Block \<Rightarrow> go_int \<Rightarrow> string" where
  "blockData block nonce =
     (let block = block\<lparr>Nonce := nonce\<rparr>
      in PrevHash block @ sprintf_d (BlockNumber block) @ sprintf_d nonce @
         sprintf_s_Transactions (Transactions block))"

definition generateHash :: "Block \<Rightarrow> go_int \<Rightarrow> string" where
  "generateHash block nonce = sprintf_x (sha256_Sum256 (blockData block nonce))"

text \<open>
  \<open>strings.Repeat\<close> panics on a negative count; \<open>strings.HasPrefix\<close> is the prefix test.
  Memory is taken as unbounded: a count that Go could not allocate is not modelled.
\<close>

definition validProof :: "string \<Rightarrow> go_int \<Rightarrow> panic + bool" where
  "validProof hash difficulty =
     (if sint difficulty < 0 then Inl NegativeRepeatCount
      else Inr (prefix (replicate (nat (sint difficulty)) CHR ''0'') hash))"

text \<open>
  The loop of \<open>proofOfWork\<close> has no bound: a run that never leaves it has the value
  \<open>None\<close>.  A panic of \<open>validProof\<close> ends it with \<open>Some (Inl p)\<close>.
\<close>

partial_function (option) proofOfWork_loop :: "Block \<Rightarrow> go_int \<Rightarrow> go_int \<Rightarrow> (panic + go_int) option" where
  "proofOfWork_loop block difficulty nonce =
     (case validProof (generateHash block nonce) difficulty of
        Inl p \<Rightarrow> Some (Inl p)
      | Inr ok \<Rightarrow> if ok then Some (Inr nonce) else proofOfWork_loop block difficulty (nonce + 1))"

definition proofOfWork :: "Block \<Rightarrow> go_int \<Rightarrow> (panic + go_int) option" where
  "proofOfWork block difficulty = proofOfWork_loop block difficulty 0"

section \<open>Shared state and the mining goroutine (miner.go, lines 37-42 and 117-182)\<close>

text \<open>
  The package-level variables.  \<open>currentBlock\<close> starts as Go's zero value of \<open>Block\<close>;
  both tip variables start as \<open>"-1"\<close>.
\<close>

record node =
  transactionPool :: "Transaction list"
  currentBlock :: Block
  previousBlockCID :: string
  previousBlockHash :: string

definition zero_Block :: Block where
  "zero_Block =
     \<lparr>PrevHash = [], Transactions = [], Nonce = 0, Hash = [], PrevCID = [], BlockNumber = 0,
      Timestamp = 0, Creator = [], Difficulty = 0\<rparr>"

definition initial_node :: node where
  "initial_node =
     \<lparr>transactionPool = [], currentBlock = zero_Block, previousBlockCID = ''-1'',
      previousBlockHash = ''-1''\<rparr>"

definition addTransaction :: "Transaction \<Rightarrow> node \<Rightarrow> node" where
  "addTransaction transaction n = n\<lparr>transactionPool := transactionPool n @ [transaction]\<rparr>"

text \<open>
  \<open>mineBlock\<close> holds the mutex from its first line to its return.  It changes no variable:
  when the pool holds at least three transactions it builds the block and starts the
  anonymous goroutine on it (the result \<open>Some block\<close>), otherwise it does nothing.
  \<open>now\<close> is the value of \<open>time.Now().Unix()\<close>.  The slice \<open>transactionPool[:3]\<close> shares
  its array with the pool, but no later statement writes to the first three cells, so the
  block's transactions are the list \<open>take 3\<close> of the pool.
\<close>

definition mineBlock :: "string \<Rightarrow> go_int \<Rightarrow> go_int \<Rightarrow> node \<Rightarrow> Block option" where
  "mineBlock miner difficulty now n =
     (if 3 \<le> length (transactionPool n)
      then Some \<lparr>PrevHash = previousBlockHash n,
                 Transactions = take 3 (transactionPool n),
                 Nonce = 0,
                 Hash = [],
                 PrevCID = previousBlockCID n,
                 BlockNumber = BlockNumber (currentBlock n) + 1,
                 Timestamp = now,
                 Creator = miner,
                 Difficulty = difficulty\<rparr>
      else None)"

text \<open>Lines 136-138 of the goroutine: the search, then the nonce and the hash are stored.\<close>

definition sealBlock :: "Block \<Rightarrow> go_int \<Rightarrow> (panic + Block) option" where
  "sealBlock block difficulty =
     (case proofOfWork block difficulty of
        None \<Rightarrow> None
      | Some (Inl p) \<Rightarrow> Some (Inl p)
      | Some (Inr nonce) \<Rightarrow>
          Some (Inr (block\<lparr>Nonce := nonce, Hash := generateHash (block\<lparr>Nonce := nonce\<rparr>) nonce\<rparr>)))"

text \<open>
  \<open>uploadBlockToIPFS\<close> has an empty body and no result: whatever the storage holds, it
  holds the same afterwards.  The storage is the list of published blocks.
\<close>

definition uploadBlockToIPFS :: "Block \<Rightarrow> Block list \<Rightarrow> Block list" where
  "uploadBlockToIPFS block storage = storage"

text \<open>Lines 145-149, under the mutex.\<close>

definition commitBlock :: "Block \<Rightarrow> node \<Rightarrow> node" where
  "commitBlock block n =
     n\<lparr>previousBlockHash := Hash block, previousBlockCID := PrevCID block, currentBlock := block\<rparr>"

text \<open>
  Lines 155-157, under the mutex: \<open>transactionPool[3:]\<close> panics when the pool holds fewer
  than three transactions, and a panic in a goroutine ends the process.
\<close>

definition clearProcessed :: "node \<Rightarrow> panic + node" where
  "clearProcessed n =
     (if length (transactionPool n) < 3 then Inl SliceBoundsOutOfRange
      else Inr (n\<lparr>transactionPool := drop 3 (transactionPool n)\<rparr>))"

subsection \<open>Interleavings\<close>

text \<open>
  Every access to the shared variables happens with the mutex held, and the search works
  on the goroutine's own copy of the block.  A run of the node is therefore a sequence of
  these atomic events: a call of \<open>addTransaction\<close>; a call of \<open>mineBlock\<close>; the \<open>i\<close>-th
  mining goroutine finishing its search and running its first critical section
  (\<open>Mined i\<close>); the same goroutine running its second critical section (\<open>Cleared i\<close>).
  What \<open>broadcastBlock\<close> prints is not part of the state.
\<close>

datatype goroutine = Mining Block go_int | Clearing Block | Finished Block

fun block_of :: "goroutine \<Rightarrow> Block" where
  "block_of (Mining b d) = b"
| "block_of (Clearing b) = b"
| "block_of (Finished b) = b"

fun committed :: "goroutine \<Rightarrow> bool" where
  "committed (Mining b d) = False"
| "committed (Clearing b) = True"
| "committed (Finished b) = True"

record system =
  shared :: node
  goroutines :: "goroutine list"
  ipfs :: "Block list"

definition initial_system :: system where
  "initial_system = \<lparr>shared = initial_node, goroutines = [], ipfs = []\<rparr>"

datatype event =
  AddTransaction Transaction
| MineBlock string go_int go_int
| Mined nat
| Cleared nat

text \<open>
  \<open>step e s\<close> is \<open>None\<close> when the event cannot happen in \<open>s\<close> (no such goroutine at that
  point of its code, or a search that never returns), \<open>Some (Inl p)\<close> when the process
  ends with the panic \<open>p\<close>, and \<open>Some (Inr s')\<close> otherwise.
\<close>

fun step :: "event \<Rightarrow> system \<Rightarrow> (panic + system) option" where
  "step (AddTransaction t) s = Some (Inr (s\<lparr>shared := addTransaction t (shared s)\<rparr>))"
| "step (MineBlock miner difficulty now) s =
     (case mineBlock miner difficulty now (shared s) of
        None \<Rightarrow> Some (Inr s)
      | Some block \<Rightarrow> Some (Inr (s\<lparr>goroutines := goroutines s @ [Mining block difficulty]\<rparr>)))"
| "step (Mined i) s =
     (if i < length (goroutines s)
      then (case goroutines s ! i of
              Mining block difficulty \<Rightarrow>
                (case sealBlock block difficulty of
                   None \<Rightarrow> None
                 | Some (Inl p) \<Rightarrow> Some (Inl p)
                 | Some (Inr block') \<Rightarrow>
                     Some (Inr (s\<lparr>shared := commitBlock block' (shared s),
                                  goroutines := (goroutines s)[i := Clearing block'],
                                  ipfs := uploadBlockToIPFS block' (ipfs s)\<rparr>)))
            | Clearing block \<Rightarrow> None
            | Finished block \<Rightarrow> None)
      else None)"
| "step (Cleared i) s =
     (if i < length (goroutines s)
      then (case goroutines s ! i of
              Mining block difficulty \<Rightarrow> None
            | Clearing block \<Rightarrow>
                (case clearProcessed (shared s) of
                   Inl p \<Rightarrow> Some (Inl p)
                 | Inr n \<Rightarrow> Some (Inr (s\<lparr>shared := n, goroutines := (goroutines s)[i := Finished block]\<rparr>)))
            | Finished block \<Rightarrow> None)
      else None)"

fun run :: "event list \<Rightarrow> system \<Rightarrow> (panic + system) option" where
  "run [] s = Some (Inr s)"
| "run (e # es) s =
     (case step e s of
        None \<Rightarrow> None
      | Some (Inl p) \<Rightarrow> Some (Inl p)
      | Some (Inr s') \<Rightarrow> run es s')"

text \<open>
  The invariant behind the tip's storage address: the variable and the \<open>PrevCID\<close> of every
  block a goroutine holds are still \<open>"-1"\<close>.
\<close>

definition cid_inv :: "system \<Rightarrow> bool" where
  "cid_inv s =
     (previousBlockCID (shared s) = ''-1'' \<and>
      list_all (\<lambda>g. PrevCID (block_of g) = ''-1'') (goroutines s))"

section \<open>The request handler (miner.go, lines 184-281)\<close>











section \<open>Example inputs\<close>

definition tx1 :: Transaction where "tx1 = \<lparr>ID = ''100.64.0.1'', Data = ''r1''\<rparr>"
definition tx2 :: Transaction where "tx2 = \<lparr>ID = ''100.64.0.2'', Data = ''r2''\<rparr>"
definition tx3 :: Transaction where "tx3 = \<lparr>ID = ''100.64.0.3'', Data = ''r3''\<rparr>"
definition tx4 :: Transaction where "tx4 = \<lparr>ID = ''100.64.0.4'', Data = ''r4''\<rparr>"
definition tx5 :: Transaction where "tx5 = \<lparr>ID = ''100.64.0.5'', Data = ''r5''\<rparr>"
definition tx6 :: Transaction where "tx6 = \<lparr>ID = ''100.64.0.6'', Data = ''r6''\<rparr>"

text \<open>A template as \<open>mineBlock\<close> assembles it on the initial state.\<close>

definition template1 :: Block where
  "template1 =
     \<lparr>PrevHash = ''-1'', Transactions = [tx1, tx2, tx3], Nonce = 0, Hash = [], PrevCID = ''-1'',
      BlockNumber = 1, Timestamp = 1700000000, Creator = ''100.64.0.3'', Difficulty = 4\<rparr>"

text \<open>
  The node after three transactions, the template \<open>mineBlock\<close> assembles on it at
  difficulty 0, and the system once that mining goroutine has started.
\<close>

definition node3 :: node where
  "node3 = initial_node\<lparr>transactionPool := [tx1, tx2, tx3]\<rparr>"

definition template0 :: Block where
  "template0 = template1\<lparr>Difficulty := 0\<rparr>"

definition mining0 :: system where
  "mining0 = \<lparr>shared = node3, goroutines = [Mining template0 0], ipfs = []\<rparr>"







section \<open>A test vector\<close>

text \<open>The digest of \<open>abc\<close>, from FIPS 180-4, computed by the definitions above.\<close>

lemma sha256_abc:
  "sprintf_x (sha256_Sum256 ''abc'') =
     ''ba7816bf8f01cfea414140de5dae2223b00361a396177a9cb410ff61f20015ad''"
  by code_simp

section \<open>Decimal printing is injective\<close>

declare dec_nat.simps [simp del]

lemma dec_val_snoc: "dec_val (ds @ [c]) = 10 * dec_val ds + (of_char c - 48)"
  by (simp add: dec_val_def)

lemma of_char_dec_digit: "n < 10 \<Longrightarrow> of_char (dec_digit n) = (48 + n :: nat)"
  by (simp add: dec_digit_def)

lemma dec_val_dec_nat: "dec_val (dec_nat n) = n"
proof (induction n rule: dec_nat.induct)
  case (1 n)
  show ?case
  proof (cases "n < 10")
    case True
    then show ?thesis
      by (subst dec_nat.simps) (simp add: dec_val_def of_char_dec_digit)
  next
    case False
    then have "dec_val (dec_nat (n div 10)) = n div 10"
      using "1" by simp
    with False show ?thesis
      by (subst dec_nat.simps) (simp add: dec_val_snoc of_char_dec_digit)
  qed
qed

lemma dec_nat_inj: "dec_nat m = dec_nat n \<Longrightarrow> m = n"
  by (metis dec_val_dec_nat)

lemma dec_digit_not_minus: "n < 10 \<Longrightarrow> dec_digit n \<noteq> CHR ''-''"
proof
  assume "n < 10" and "dec_digit n = CHR ''-''"
  then have "(of_char (dec_digit n) :: nat) = of_char CHR ''-''" by simp
  with \<open>n < 10\<close> show False by (simp add: of_char_dec_digit)
qed

lemma dec_nat_hd: "\<exists>c cs. dec_nat n = c # cs \<and> c \<noteq> CHR ''-''"
proof (induction n rule: dec_nat.induct)
  case (1 n)
  show ?case
  proof (cases "n < 10")
    case True
    then show ?thesis
      by (subst dec_nat.simps) (simp add: dec_digit_not_minus)
  next
    case False
    then obtain c cs where "dec_nat (n div 10) = c # cs" "c \<noteq> CHR ''-''"
      using "1" by blast
    with False show ?thesis
      by (subst dec_nat.simps) simp
  qed
qed

lemma sprintf_d_inj: "sprintf_d v = sprintf_d w \<Longrightarrow> v = w"
proof -
  assume eq: "sprintf_d v = sprintf_d w"
  obtain c cs where v: "dec_nat (nat (sint v)) = c # cs" "c \<noteq> CHR ''-''"
    using dec_nat_hd by blast
  obtain d ds where w: "dec_nat (nat (sint w)) = d # ds" "d \<noteq> CHR ''-''"
    using dec_nat_hd by blast
  have "sint v = sint w"
  proof (cases "sint v < 0"; cases "sint w < 0")
    assume a: "sint v < 0" "sint w < 0"
    with eq have "dec_nat (nat (- sint v)) = dec_nat (nat (- sint w))"
      by (simp add: sprintf_d_def)
    then have "nat (- sint v) = nat (- sint w)" by (rule dec_nat_inj)
    with a show ?thesis by simp
  next
    assume a: "sint v < 0" "\<not> sint w < 0"
    with eq w show ?thesis by (simp add: sprintf_d_def)
  next
    assume a: "\<not> sint v < 0" "sint w < 0"
    with eq v show ?thesis by (simp add: sprintf_d_def)
  next
    assume a: "\<not> sint v < 0" "\<not> sint w < 0"
    with eq have "dec_nat (nat (sint v)) = dec_nat (nat (sint w))"
      by (simp add: sprintf_d_def)
    then have "nat (sint v) = nat (sint w)" by (rule dec_nat_inj)
    with a show ?thesis by simp
  qed
  then show ?thesis by (simp add: signed_word_eqI)
qed

section \<open>The digest\<close>

lemma blockData_unread_fields:
  "blockData (b\<lparr>PrevCID := c, Timestamp := t, Creator := m, Difficulty := d, Nonce := x, Hash := h\<rparr>) n
     = blockData b n"
  by (simp add: blockData_def)

lemma blockData_nonce: "(blockData b n = blockData b n') = (n = n')"
  by (auto simp: blockData_def dest: sprintf_d_inj)

lemma blockData_PrevHash:
  "(blockData (b\<lparr>PrevHash := p\<rparr>) n = blockData (b\<lparr>PrevHash := p'\<rparr>) n) = (p = p')"
  by (auto simp: blockData_def)

lemma blockData_BlockNumber:
  "(blockData (b\<lparr>BlockNumber := k\<rparr>) n = blockData (b\<lparr>BlockNumber := k'\<rparr>) n) = (k = k')"
  by (auto simp: blockData_def dest: sprintf_d_inj)

text \<open>
  C3, as amended.  The digest is the hexadecimal SHA-256 of the string made of \<open>PrevHash\<close>,
  \<open>BlockNumber\<close>, the nonce and the transactions, and of nothing else: the fields
  \<open>PrevCID\<close>, \<open>Timestamp\<close>, \<open>Creator\<close> and \<open>Difficulty\<close> (and the stored \<open>Nonce\<close> and \<open>Hash\<close>)
  do not reach it.  On one block, two nonces give the same hashed string only when they
  are equal, and so do two values of \<open>PrevHash\<close> and two values of \<open>BlockNumber\<close>.
\<close>

theorem generateHash_reads_four_inputs:
  "generateHash block nonce =
     sprintf_x (sha256_Sum256 (PrevHash block @ sprintf_d (BlockNumber block) @ sprintf_d nonce @
                               sprintf_s_Transactions (Transactions block))) \<and>
   generateHash (block\<lparr>PrevCID := c, Timestamp := t, Creator := m, Difficulty := d, Nonce := x,
                       Hash := h\<rparr>) nonce = generateHash block nonce \<and>
   ((blockData block nonce = blockData block nonce') = (nonce = nonce')) \<and>
   ((blockData (block\<lparr>PrevHash := p\<rparr>) nonce = blockData (block\<lparr>PrevHash := p'\<rparr>) nonce) = (p = p')) \<and>
   ((blockData (block\<lparr>BlockNumber := k\<rparr>) nonce = blockData (block\<lparr>BlockNumber := k'\<rparr>) nonce) = (k = k'))"
proof -
  have "generateHash block nonce =
     sprintf_x (sha256_Sum256 (PrevHash block @ sprintf_d (BlockNumber block) @ sprintf_d nonce @
                               sprintf_s_Transactions (Transactions block)))"
    by (simp add: generateHash_def blockData_def)
  moreover have "generateHash (block\<lparr>PrevCID := c, Timestamp := t, Creator := m, Difficulty := d,
      Nonce := x, Hash := h\<rparr>) nonce = generateHash block nonce"
    unfolding generateHash_def by (simp only: blockData_unread_fields)
  ultimately show ?thesis
    by (simp only: blockData_nonce blockData_PrevHash blockData_BlockNumber simp_thms)
qed

text \<open>
  C3 as stated fails: two blocks that differ in \<open>Creator\<close> (or in \<open>PrevCID\<close>, \<open>Timestamp\<close>,
  \<open>Difficulty\<close>) have the same digest, and so have two different transaction lists that
  print alike.
\<close>

theorem generateHash_ignores_fields_counterexample:
  "Creator (template1\<lparr>Creator := ''100.64.0.9''\<rparr>) \<noteq> Creator template1 \<and>
   generateHash (template1\<lparr>Creator := ''100.64.0.9''\<rparr>) 0 = generateHash template1 0 \<and>
   PrevCID (template1\<lparr>PrevCID := ''QmX''\<rparr>) \<noteq> PrevCID template1 \<and>
   generateHash (template1\<lparr>PrevCID := ''QmX''\<rparr>) 0 = generateHash template1 0 \<and>
   Timestamp (template1\<lparr>Timestamp := 5\<rparr>) \<noteq> Timestamp template1 \<and>
   generateHash (template1\<lparr>Timestamp := 5\<rparr>) 0 = generateHash template1 0 \<and>
   Difficulty (template1\<lparr>Difficulty := 1\<rparr>) \<noteq> Difficulty template1 \<and>
   generateHash (template1\<lparr>Difficulty := 1\<rparr>) 0 = generateHash template1 0 \<and>
   [\<lparr>ID = ''a b'', Data = ''c''\<rparr>] \<noteq> [\<lparr>ID = ''a'', Data = ''b c''\<rparr>] \<and>
   generateHash (template1\<lparr>Transactions := [\<lparr>ID = ''a b'', Data = ''c''\<rparr>]\<rparr>) 0 =
   generateHash (template1\<lparr>Transactions := [\<lparr>ID = ''a'', Data = ''b c''\<rparr>]\<rparr>) 0"
  by (simp add: generateHash_def blockData_def template1_def sprintf_s_Transactions_def
      sprintf_s_Transaction_def)

section \<open>The search\<close>

lemma length_words_of: "length (words_of n bs) = n"
  by (induction n arbitrary: bs) auto

lemma length_sha256_schedule: "length (sha256_schedule n ws) = length ws + n"
  by (induction n arbitrary: ws) (auto simp: Let_def)

lemma length_sha256_round: "length (sha256_round s kw) = 8"
  by (simp add: sha256_round_def Let_def)

lemma length_foldl_sha256_round: "xs \<noteq> [] \<Longrightarrow> length (foldl sha256_round s xs) = 8"
  by (induction xs arbitrary: s rule: rev_induct) (auto simp: length_sha256_round)

lemma length_sha256_block: "length s = 8 \<Longrightarrow> length (sha256_block s chunk) = 8"
proof -
  assume s: "length s = 8"
  have "length (zip sha256_K (sha256_schedule 48 (words_of 16 chunk))) = 64"
    by (simp add: length_sha256_schedule length_words_of sha256_K_def)
  then have "zip sha256_K (sha256_schedule 48 (words_of 16 chunk)) \<noteq> []"
    by auto
  then show ?thesis
    using s by (simp add: sha256_block_def length_foldl_sha256_round)
qed

lemma length_sha256_blocks: "length s = 8 \<Longrightarrow> length (sha256_blocks n s bs) = 8"
  by (induction n arbitrary: s bs) (auto simp: length_sha256_block)

lemma length_concat_const: "(\<And>x. x \<in> set xs \<Longrightarrow> length (f x) = k) \<Longrightarrow> length (concat (map f xs)) = k * length xs"
  by (induction xs) auto

lemma length_sha256_Sum256: "length (sha256_Sum256 m) = 32"
proof -
  have "length (sha256_blocks n sha256_init p) = 8" for n p
    by (rule length_sha256_blocks) (simp add: sha256_init_def)
  then show ?thesis
    by (simp add: sha256_Sum256_def Let_def be_bytes_def length_concat_const [where k = 4])
qed

lemma length_generateHash: "length (generateHash block nonce) = 64"
  by (simp add: generateHash_def sprintf_x_def length_concat_const [where k = 2] length_sha256_Sum256)


lemma validProof_zero: "validProof hash 0 = Inr True"
  by (simp add: validProof_def)





lemma proofOfWork_zero: "proofOfWork block 0 = Some (Inr 0)"
  unfolding proofOfWork_def by (subst proofOfWork_loop.simps) (simp add: validProof_zero)










section \<open>The mining goroutine\<close>

lemma generateHash_Nonce: "generateHash (block\<lparr>Nonce := x\<rparr>) nonce = generateHash block nonce"
  by (simp add: generateHash_def blockData_def)

lemma sealBlock_zero:
  "sealBlock block 0 = Some (Inr (block\<lparr>Nonce := 0, Hash := generateHash block 0\<rparr>))"
  by (simp add: sealBlock_def proofOfWork_zero generateHash_Nonce)

lemma sealBlock_Inr:
  "(sealBlock block difficulty = Some (Inr block')) =
   (\<exists>nonce. proofOfWork block difficulty = Some (Inr nonce) \<and>
      block' = block\<lparr>Nonce := nonce, Hash := generateHash block nonce\<rparr>)"
  by (auto simp: sealBlock_def generateHash_Nonce split: option.splits sum.splits)

lemma step_Mined_Inr:
  "step (Mined i) s = Some (Inr s') \<Longrightarrow>
   \<exists>block difficulty block'. i < length (goroutines s) \<and> goroutines s ! i = Mining block difficulty \<and>
     sealBlock block difficulty = Some (Inr block') \<and>
     s' = s\<lparr>shared := commitBlock block' (shared s),
            goroutines := (goroutines s)[i := Clearing block'], ipfs := ipfs s\<rparr>"
  by (auto simp: uploadBlockToIPFS_def split: if_splits goroutine.splits option.splits sum.splits)

lemma step_Cleared_Inr:
  "step (Cleared i) s = Some (Inr s') \<Longrightarrow>
   \<exists>block n. i < length (goroutines s) \<and> goroutines s ! i = Clearing block \<and>
     clearProcessed (shared s) = Inr n \<and>
     s' = s\<lparr>shared := n, goroutines := (goroutines s)[i := Finished block]\<rparr>"
  by (auto split: if_splits goroutine.splits sum.splits)

lemma run_Cons_Inr:
  "run (e # es) s = Some (Inr s') \<Longrightarrow> \<exists>s1. step e s = Some (Inr s1) \<and> run es s1 = Some (Inr s')"
  by (auto split: option.splits sum.splits)

lemma step_ipfs: "step e s = Some (Inr s') \<Longrightarrow> ipfs s' = ipfs s"
  by (cases e)
     (auto simp: uploadBlockToIPFS_def split: if_splits goroutine.splits option.splits sum.splits)

lemma run_ipfs: "run es s = Some (Inr s') \<Longrightarrow> ipfs s' = ipfs s"
proof (induction es arbitrary: s)
  case Nil
  then show ?case by simp
next
  case (Cons e es)
  then obtain s1 where "step e s = Some (Inr s1)" "run es s1 = Some (Inr s')"
    using run_Cons_Inr by blast
  then show ?case
    using Cons.IH step_ipfs by fastforce
qed

lemma list_all_update: "list_all P xs \<Longrightarrow> P x \<Longrightarrow> list_all P (xs[i := x])"
  by (induction xs arbitrary: i) (auto split: nat.splits)

lemma step_cid_inv: "cid_inv s \<Longrightarrow> step e s = Some (Inr s') \<Longrightarrow> cid_inv s'"
proof (cases e)
  case (AddTransaction t)
  assume "cid_inv s" "step e s = Some (Inr s')"
  with AddTransaction show ?thesis
    by (auto simp: cid_inv_def addTransaction_def)
next
  case (MineBlock miner difficulty now)
  assume "cid_inv s" "step e s = Some (Inr s')"
  with MineBlock show ?thesis
    by (auto simp: cid_inv_def mineBlock_def split: option.splits if_splits)
next
  case (Mined i)
  assume inv: "cid_inv s" and st: "step e s = Some (Inr s')"
  from st Mined obtain block difficulty block' where
    g: "i < length (goroutines s)" "goroutines s ! i = Mining block difficulty" and
    seal: "sealBlock block difficulty = Some (Inr block')" and
    s': "s' = s\<lparr>shared := commitBlock block' (shared s),
            goroutines := (goroutines s)[i := Clearing block'], ipfs := ipfs s\<rparr>"
    using step_Mined_Inr by blast
  from inv g have "PrevCID block = ''-1''"
    by (auto simp: cid_inv_def list_all_length)
  with seal have "PrevCID block' = ''-1''"
    by (auto simp: sealBlock_Inr)
  with inv s' show ?thesis
    by (simp add: cid_inv_def commitBlock_def list_all_update)
next
  case (Cleared i)
  assume inv: "cid_inv s" and st: "step e s = Some (Inr s')"
  from st Cleared obtain block n where
    g: "i < length (goroutines s)" "goroutines s ! i = Clearing block" and
    n: "clearProcessed (shared s) = Inr n" and
    s': "s' = s\<lparr>shared := n, goroutines := (goroutines s)[i := Finished block]\<rparr>"
    using step_Cleared_Inr by blast
  from inv g have "PrevCID block = ''-1''"
    by (auto simp: cid_inv_def list_all_length)
  moreover from n have "previousBlockCID n = previousBlockCID (shared s)"
    by (auto simp: clearProcessed_def split: if_splits)
  ultimately show ?thesis
    using inv s' by (simp add: cid_inv_def list_all_update)
qed

lemma run_cid_inv: "cid_inv s \<Longrightarrow> run es s = Some (Inr s') \<Longrightarrow> cid_inv s'"
proof (induction es arbitrary: s)
  case Nil
  then show ?case by simp
next
  case (Cons e es)
  then obtain s1 where "step e s = Some (Inr s1)" "run es s1 = Some (Inr s')"
    using run_Cons_Inr by blast
  with Cons.prems(1) Cons.IH show ?case
    using step_cid_inv by blast
qed

lemma initial_cid_inv: "cid_inv initial_system"
  by (simp add: cid_inv_def initial_system_def initial_node_def)

lemmas trace_simps =
  initial_system_def initial_node_def addTransaction_def mineBlock_def sealBlock_zero
  commitBlock_def clearProcessed_def uploadBlockToIPFS_def zero_Block_def

lemma mineBlock_node3: "mineBlock ''100.64.0.3'' 0 1700000000 node3 = Some template0"
  by (simp add: mineBlock_def node3_def initial_node_def template0_def template1_def zero_Block_def)

lemma run_to_mining0:
  "run [AddTransaction tx1, AddTransaction tx2, AddTransaction tx3,
        MineBlock ''100.64.0.3'' 0 1700000000] initial_system = Some (Inr mining0)"
  by (simp add: trace_simps mining0_def node3_def template0_def template1_def)

text \<open>
  C1: the code at the failing inputs.  The check (\<open>len(transactionPool) >= 3\<close>) and the
  removal (\<open>transactionPool[3:]\<close>) are two critical sections with the search between
  them.  First run, at the handler's difficulty 4: a second \<open>mineBlock\<close>, called while the
  first attempt is still searching, assembles its block from the same three transactions.
  Second run, at difficulty 0 so that both searches return: the second removal finds one
  transaction in the pool and the process panics.  Third run, with six transactions: both
  blocks carry \<open>tx1\<close>, \<open>tx2\<close>, \<open>tx3\<close>, and \<open>tx4\<close>, \<open>tx5\<close>, \<open>tx6\<close> leave the pool without
  being in any block.
\<close>

theorem overlapping_attempts_share_a_batch:
  "(case run [AddTransaction tx1, AddTransaction tx2, AddTransaction tx3,
              MineBlock ''100.64.0.3'' 4 1700000000, AddTransaction tx4,
              MineBlock ''100.64.0.4'' 4 1700000060] initial_system of
      Some (Inr s) \<Rightarrow> map (\<lambda>g. Transactions (block_of g)) (goroutines s) =
                        [[tx1, tx2, tx3], [tx1, tx2, tx3]]
    | _ \<Rightarrow> False) \<and>
   run [AddTransaction tx1, AddTransaction tx2, AddTransaction tx3,
        MineBlock ''100.64.0.3'' 0 1700000000, AddTransaction tx4,
        MineBlock ''100.64.0.4'' 0 1700000060, Mined 0, Cleared 0, Mined 1, Cleared 1]
     initial_system = Some (Inl SliceBoundsOutOfRange) \<and>
   (case run [AddTransaction tx1, AddTransaction tx2, AddTransaction tx3, AddTransaction tx4,
              AddTransaction tx5, AddTransaction tx6,
              MineBlock ''100.64.0.3'' 0 1700000000, MineBlock ''100.64.0.6'' 0 1700000060,
              Mined 0, Cleared 0, Mined 1, Cleared 1] initial_system of
      Some (Inr s) \<Rightarrow> map (\<lambda>g. (committed g, Transactions (block_of g))) (goroutines s) =
                        [(True, [tx1, tx2, tx3]), (True, [tx1, tx2, tx3])] \<and>
                      transactionPool (shared s) = []
    | _ \<Rightarrow> False)"
  by (simp add: trace_simps)

text \<open>
  C2: what the code does instead.  Every commit of a mined block makes that block the tip
  (the tip hash is the block's 64-character digest) and leaves the storage as it was: no
  run from the initial state ever publishes a block.
\<close>

theorem tip_advances_without_publication:
  "(step (Mined i) s = Some (Inr s') \<longrightarrow>
      ipfs s' = ipfs s \<and>
      i < length (goroutines s') \<and> goroutines s' ! i = Clearing (currentBlock (shared s')) \<and>
      previousBlockHash (shared s') = Hash (currentBlock (shared s')) \<and>
      length (previousBlockHash (shared s')) = 64) \<and>
   (run es initial_system = Some (Inr t) \<longrightarrow> ipfs t = [])"
proof (intro conjI impI)
  assume st: "step (Mined i) s = Some (Inr s')"
  then obtain block difficulty block' where
    g: "i < length (goroutines s)" and
    seal: "sealBlock block difficulty = Some (Inr block')" and
    s': "s' = s\<lparr>shared := commitBlock block' (shared s),
            goroutines := (goroutines s)[i := Clearing block'], ipfs := ipfs s\<rparr>"
    using step_Mined_Inr by blast
  from seal obtain nonce where "Hash block' = generateHash block nonce"
    by (auto simp: sealBlock_Inr)
  then have "length (Hash block') = 64"
    by (simp add: length_generateHash)
  with g s' show "ipfs s' = ipfs s" "i < length (goroutines s')"
    "goroutines s' ! i = Clearing (currentBlock (shared s'))"
    "previousBlockHash (shared s') = Hash (currentBlock (shared s'))"
    "length (previousBlockHash (shared s')) = 64"
    by (simp_all add: commitBlock_def)
next
  assume "run es initial_system = Some (Inr t)"
  then have "ipfs t = ipfs initial_system" by (rule run_ipfs)
  then show "ipfs t = []" by (simp add: initial_system_def)
qed

theorem tip_advances_without_publication_witness:
  "\<exists>s'. step (Mined 0) mining0 = Some (Inr s') \<and> ipfs s' = [] \<and>
        previousBlockHash (shared mining0) = ''-1'' \<and>
        previousBlockHash (shared s') = generateHash template0 0 \<and>
        length (previousBlockHash (shared s')) = 64"
proof -
  define s' where "s' = mining0
    \<lparr>shared := commitBlock (template0\<lparr>Nonce := 0, Hash := generateHash template0 0\<rparr>) node3,
     goroutines := [Clearing (template0\<lparr>Nonce := 0, Hash := generateHash template0 0\<rparr>)]\<rparr>"
  have st: "step (Mined 0) mining0 = Some (Inr s')"
    by (simp add: s'_def mining0_def sealBlock_zero uploadBlockToIPFS_def)
  with tip_advances_without_publication [of 0 mining0 s']
  have "ipfs s' = ipfs mining0" "previousBlockHash (shared s') = Hash (currentBlock (shared s'))"
    "length (previousBlockHash (shared s')) = 64"
    by blast+
  moreover have "Hash (currentBlock (shared s')) = generateHash template0 0"
    by (simp add: s'_def commitBlock_def)
  moreover have "ipfs mining0 = []" "previousBlockHash (shared mining0) = ''-1''"
    by (simp_all add: mining0_def node3_def initial_node_def)
  ultimately show ?thesis
    using st by auto
qed

text \<open>
  C4: what the code does instead.  A commit sets the tip hash to the block's hash and the
  tip block number to the block's number, but it sets the tip storage address to the
  block's \<open>PrevCID\<close>; in every state reachable from the initial one the tip storage address
  is still \<open>"-1"\<close>.
\<close>

theorem tip_address_never_changes:
  "(run es initial_system = Some (Inr t) \<longrightarrow> previousBlockCID (shared t) = ''-1'') \<and>
   (step (Mined i) s = Some (Inr s') \<longrightarrow>
      previousBlockHash (shared s') = Hash (currentBlock (shared s')) \<and>
      previousBlockCID (shared s') = PrevCID (currentBlock (shared s')) \<and>
      BlockNumber (currentBlock (shared s')) = BlockNumber (block_of (goroutines s ! i)))"
proof (intro conjI impI)
  assume "run es initial_system = Some (Inr t)"
  with initial_cid_inv have "cid_inv t" by (rule run_cid_inv)
  then show "previousBlockCID (shared t) = ''-1''" by (simp add: cid_inv_def)
next
  assume "step (Mined i) s = Some (Inr s')"
  then obtain block difficulty block' where
    "goroutines s ! i = Mining block difficulty" "sealBlock block difficulty = Some (Inr block')"
    "s' = s\<lparr>shared := commitBlock block' (shared s),
            goroutines := (goroutines s)[i := Clearing block'], ipfs := ipfs s\<rparr>"
    using step_Mined_Inr by blast
  then show "previousBlockHash (shared s') = Hash (currentBlock (shared s'))"
    "previousBlockCID (shared s') = PrevCID (currentBlock (shared s'))"
    "BlockNumber (currentBlock (shared s')) = BlockNumber (block_of (goroutines s ! i))"
    by (auto simp: commitBlock_def sealBlock_Inr)
qed

theorem tip_address_never_changes_witness:
  "\<exists>s. run [AddTransaction tx1, AddTransaction tx2, AddTransaction tx3,
             MineBlock ''100.64.0.3'' 0 1700000000, Mined 0] initial_system = Some (Inr s) \<and>
       previousBlockHash (shared s) = generateHash template0 0 \<and>
       BlockNumber (currentBlock (shared s)) = 1 \<and>
       previousBlockCID (shared s) = ''-1''"
proof -
  obtain s where s: "run [AddTransaction tx1, AddTransaction tx2, AddTransaction tx3,
      MineBlock ''100.64.0.3'' 0 1700000000, Mined 0] initial_system = Some (Inr s)"
    "previousBlockHash (shared s) = generateHash template0 0"
    "BlockNumber (currentBlock (shared s)) = 1"
    by (simp add: trace_simps template0_def template1_def generateHash_def blockData_def)
  with tip_address_never_changes [of _ s] show ?thesis
    by blast
qed

text \<open>
  C5, as amended.  A commit is never rejected: whenever the search of a mining goroutine
  returns, its commit succeeds and makes its block the tip, whatever the tip is at that
  moment; the tip block number becomes the block's number, which is one more (in 64-bit
  arithmetic) than the tip block number read when the block was assembled.
\<close>

theorem commit_never_rejected:
  "(i < length (goroutines s) \<and> goroutines s ! i = Mining block difficulty \<and>
    proofOfWork block difficulty = Some (Inr nonce) \<longrightarrow>
      (\<exists>s'. step (Mined i) s = Some (Inr s') \<and>
            currentBlock (shared s') = block\<lparr>Nonce := nonce, Hash := generateHash block nonce\<rparr> \<and>
            previousBlockHash (shared s') = generateHash block nonce \<and>
            BlockNumber (currentBlock (shared s')) = BlockNumber block)) \<and>
   (mineBlock miner difficulty now n = Some block \<longrightarrow>
      BlockNumber block = BlockNumber (currentBlock n) + 1 \<and> PrevHash block = previousBlockHash n)"
  by (auto simp: sealBlock_def commitBlock_def mineBlock_def generateHash_Nonce split: if_splits)

theorem commit_never_rejected_witness:
  "mineBlock ''100.64.0.3'' 0 1700000000 node3 = Some template0 \<and>
   BlockNumber template0 = BlockNumber (currentBlock node3) + 1 \<and>
   goroutines mining0 ! 0 = Mining template0 0 \<and>
   proofOfWork template0 0 = Some (Inr 0) \<and>
   (\<exists>s'. step (Mined 0) mining0 = Some (Inr s') \<and>
         previousBlockHash (shared s') = generateHash template0 0 \<and>
         BlockNumber (currentBlock (shared s')) = 1)"
proof -
  have a: "0 < length (goroutines mining0) \<and> goroutines mining0 ! 0 = Mining template0 0 \<and>
      proofOfWork template0 0 = Some (Inr 0)"
    by (simp add: mining0_def proofOfWork_zero)
  have b: "BlockNumber template0 = 1"
    by (simp add: template0_def template1_def)
  from commit_never_rejected [of 0 mining0 template0 0 0 "''100.64.0.3''" 1700000000 node3]
    a b mineBlock_node3 show ?thesis
    by auto
qed

text \<open>
  C5 as stated fails.  Two attempts that read the same tip both commit a block numbered 1;
  and when a third attempt commits block 2 between them, the late commit takes the tip
  block number from 2 back to 1.
\<close>

theorem commit_never_rejected_counterexample:
  "(case run [AddTransaction tx1, AddTransaction tx2, AddTransaction tx3,
              MineBlock ''100.64.0.3'' 0 1700000000, MineBlock ''100.64.0.3'' 0 1700000060,
              Mined 0, Mined 1] initial_system of
      Some (Inr s) \<Rightarrow> map (\<lambda>g. (committed g, BlockNumber (block_of g))) (goroutines s) =
                        [(True, 1), (True, 1)] \<and>
                      BlockNumber (currentBlock (shared s)) = 1
    | _ \<Rightarrow> False) \<and>
   (case run [AddTransaction tx1, AddTransaction tx2, AddTransaction tx3,
              MineBlock ''100.64.0.3'' 0 1700000000, MineBlock ''100.64.0.3'' 0 1700000060,
              Mined 0, MineBlock ''100.64.0.3'' 0 1700000120, Mined 2] initial_system of
      Some (Inr s) \<Rightarrow> BlockNumber (currentBlock (shared s)) = 2
    | _ \<Rightarrow> False) \<and>
   (case run [AddTransaction tx1, AddTransaction tx2, AddTransaction tx3,
              MineBlock ''100.64.0.3'' 0 1700000000, MineBlock ''100.64.0.3'' 0 1700000060,
              Mined 0, MineBlock ''100.64.0.3'' 0 1700000120, Mined 2, Mined 1] initial_system of
      Some (Inr s) \<Rightarrow> BlockNumber (currentBlock (shared s)) = 1
    | _ \<Rightarrow> False)"
  by (simp add: trace_simps)



section \<open>The request handler\<close>




















end
